theory Spec2Isabelle
  imports Main
begin

unbundle bit_operations_syntax

section \<open>Co-occurrence latent vectors: a model of \<open>features/category_vector.py\<close>\<close>

subsection \<open>Python values: exceptions, indexing, \<open>str\<close> and \<open>join\<close>\<close>

text \<open>
  The exceptions the module can raise. \<open>SklearnError\<close> stands for any exception raised
  inside a vectorizer or a factorizer of scikit-learn, which the module never catches.
\<close>

datatype error = KeyError | IndexError | ValueError | TypeError | SklearnError

text \<open>
  \<open>xs[i]\<close> on a Python list or on the first axis of a numpy array: a negative index counts
  from the end, an index outside \<open>[-len, len)\<close> raises IndexError. \<open>py_position\<close> is the
  position that is read or written.
\<close>

definition py_position :: "'a list \<Rightarrow> int \<Rightarrow> error + nat" where
  "py_position xs i =
     (let n = int (length xs) in
      if 0 \<le> i \<and> i < n then Inr (nat i)
      else if - n \<le> i \<and> i < 0 then Inr (nat (n + i))
      else Inl IndexError)"

definition py_getitem :: "'a list \<Rightarrow> int \<Rightarrow> error + 'a" where
  "py_getitem xs i = (case py_position xs i of Inl e \<Rightarrow> Inl e | Inr k \<Rightarrow> Inr (xs ! k))"

text \<open>\<open>xs[k]\<close> for an index that is a length (never negative).\<close>

definition py_getitem_nat :: "'a list \<Rightarrow> nat \<Rightarrow> error + 'a" where
  "py_getitem_nat xs k = (if k < length xs then Inr (xs ! k) else Inl IndexError)"

text \<open>\<open>str\<close> of an integer: its decimal digits, with a minus sign when negative.\<close>

definition digit :: "nat \<Rightarrow> char" where
  "digit d = ''0123456789'' ! d"

fun str_nat :: "nat \<Rightarrow> string" where
  "str_nat n = (if n < 10 then [digit n] else str_nat (n div 10) @ [digit (n mod 10)])"

declare str_nat.simps [simp del]

definition str :: "int \<Rightarrow> string" where
  "str i = (if i < 0 then CHR ''-'' # str_nat (nat (- i)) else str_nat (nat i))"

text \<open>\<open>sep.join(xs)\<close>.\<close>

fun join :: "string \<Rightarrow> string list \<Rightarrow> string" where
  "join sep [] = []"
| "join sep [x] = x"
| "join sep (x # y # ys) = x @ sep @ join sep (y # ys)"

subsection \<open>Row-level records\<close>

text \<open>
  A data frame of the click log: one record per row, with the five label-encoded
  categorical columns the module reads. Iterating over a column yields Python integers,
  which are unbounded. \<open>df[col]\<close> raises KeyError for any other column name, and
  \<open>len(df)\<close> is the number of rows.
\<close>

record click =
  ip :: int
  app :: int
  os :: int
  device :: int
  channel :: int

type_synonym dataframe = "click list"

definition getitem :: "dataframe \<Rightarrow> string \<Rightarrow> error + int list" where
  "getitem df col =
     (if col = ''ip'' then Inr (map ip df)
      else if col = ''app'' then Inr (map app df)
      else if col = ''os'' then Inr (map os df)
      else if col = ''device'' then Inr (map device df)
      else if col = ''channel'' then Inr (map channel df)
      else Inl KeyError)"

text \<open>
  A dense matrix (a numpy array of two axes, or the data of a data frame) is the list of
  its rows. The entries are of a type \<open>'v\<close> of numbers; storing into an array of dtype
  float32, and \<open>astype(np.float32)\<close>, convert each entry with a function \<open>f32\<close> that the
  definitions below take as a parameter.
\<close>

type_synonym 'v matrix = "'v list list"

definition astype :: "('v \<Rightarrow> 'v) \<Rightarrow> 'v matrix \<Rightarrow> 'v matrix" where
  "astype f32 m = map (map f32) m"

definition zeros :: "nat \<Rightarrow> nat \<Rightarrow> ('v::zero) matrix" where
  "zeros nrows ncols = replicate nrows (replicate ncols 0)"

record 'v table =
  columns :: "string list"
  data :: "'v matrix"

text \<open>
  \<open>pd.DataFrame(data=features, columns=columns)\<close> raises ValueError unless there are as
  many column names as the matrix has columns.
\<close>

definition DataFrame :: "'v matrix \<Rightarrow> string list \<Rightarrow> error + 'v table" where
  "DataFrame features cols =
     (if list_all (\<lambda>row. length row = length cols) features
      then Inr \<lparr>columns = cols, data = features\<rparr>
      else Inl ValueError)"

subsection \<open>Document Builder: \<open>create_word_list\<close>\<close>

text \<open>
  The loop \<open>for val1, val2 in zip(df[col1], df[col2]): col2_list[val1].append(val2)\<close>.
\<close>

fun append_values :: "int list list \<Rightarrow> (int \<times> int) list \<Rightarrow> error + int list list" where
  "append_values col2_list [] = Inr col2_list"
| "append_values col2_list ((val1, val2) # rest) =
     (case py_position col2_list val1 of
        Inl e \<Rightarrow> Inl e
      | Inr k \<Rightarrow> append_values (col2_list[k := col2_list ! k @ [val2]]) rest)"

text \<open>
  \<open>df[col1].max()\<close> of a column without rows is NaN, and \<open>range\<close> of it raises
  TypeError. \<open>range(n)\<close> is empty when \<open>n \<le> 0\<close>.
\<close>

definition create_word_list :: "dataframe \<Rightarrow> string \<Rightarrow> string \<Rightarrow> error + string list" where
  "create_word_list df col1 col2 =
     (case getitem df col1 of
        Inl e \<Rightarrow> Inl e
      | Inr vals1 \<Rightarrow>
          if vals1 = [] then Inl TypeError
          else
            let col1_size = Max (set vals1) + 1;
                col2_list = replicate (nat col1_size) []
            in (case getitem df col2 of
                  Inl e \<Rightarrow> Inl e
                | Inr vals2 \<Rightarrow>
                    (case append_values col2_list (zip vals1 vals2) of
                       Inl e \<Rightarrow> Inl e
                     | Inr filled \<Rightarrow> Inr (map (\<lambda>list. join '' '' (map str list)) filled))))"

subsection \<open>Pair Job Runner and Broadcast/Assembler: \<open>OneVsOneCoOccurrenceLatentVector\<close>\<close>

definition column_names :: "string list" where
  "column_names = [''ip'', ''app'', ''os'', ''device'', ''channel'']"

text \<open>\<open>itertools.product(columns, repeat=2)\<close> varies its last component fastest.\<close>

definition get_column_pairs :: "(string \<times> string) list" where
  "get_column_pairs =
     filter (\<lambda>(col1, col2). col1 \<noteq> col2) (List.product column_names column_names)"

text \<open>
  A feature variant (a subclass): its name, its width, and the \<open>fit_transform\<close> of the
  vectorizer and of the factorizer its two factories return. Both are scikit-learn
  estimators, outside this module; they are parameters here.
\<close>

record ('d, 'v) variant =
  name :: string
  width :: nat
  vectorizer_factory :: "string list \<Rightarrow> error + 'd"
  transformer_factory :: "'d \<Rightarrow> error + 'v matrix"

definition create_document_term_matrix ::
  "('d, 'v) variant \<Rightarrow> dataframe \<Rightarrow> string \<Rightarrow> string \<Rightarrow> error + 'd" where
  "create_document_term_matrix self dataframe col1 col2 =
     (case create_word_list dataframe col1 col2 of
        Inl e \<Rightarrow> Inl e
      | Inr word_list \<Rightarrow> vectorizer_factory self word_list)"

definition compute_latent_vectors ::
  "('d, 'v) variant \<Rightarrow> dataframe \<Rightarrow> string \<times> string \<Rightarrow> error + string \<times> string \<times> 'v matrix" where
  "compute_latent_vectors self dataframe col_pair =
     (case col_pair of (col1, col2) \<Rightarrow>
        (case create_document_term_matrix self dataframe col1 col2 of
           Inl e \<Rightarrow> Inl e
         | Inr document_term_matrix \<Rightarrow>
             (case transformer_factory self document_term_matrix of
                Inl e \<Rightarrow> Inl e
              | Inr latent \<Rightarrow> Inr (col1, col2, latent))))"

text \<open>
  \<open>features[j, start:stop] = value\<close> on a row of a float32 array: the slice is clipped to
  the row, the value is converted to float32, a value of one entry is broadcast over the
  slice, and any other length mismatch raises ValueError.
\<close>

definition assign_slice :: "('v \<Rightarrow> 'v) \<Rightarrow> 'v list \<Rightarrow> nat \<Rightarrow> nat \<Rightarrow> 'v list \<Rightarrow> error + 'v list" where
  "assign_slice f32 frow start stop val =
     (let lo = min start (length frow);
          hi = max lo (min stop (length frow));
          n = hi - lo
      in if length val = n then Inr (take lo frow @ map f32 val @ drop hi frow)
         else if length val = 1 then Inr (take lo frow @ replicate n (f32 (hd val)) @ drop hi frow)
         else Inl ValueError)"

text \<open>
  The inner loop of \<open>get_feature\<close>:
  \<open>for j, val1 in enumerate(df_data[col1]): features[j, offset:offset + width] = latent_vector[val1]\<close>.
\<close>

fun broadcast_rows ::
  "('v \<Rightarrow> 'v) \<Rightarrow> 'v matrix \<Rightarrow> nat \<Rightarrow> nat \<Rightarrow> nat \<Rightarrow> int list \<Rightarrow> 'v matrix \<Rightarrow> error + 'v matrix" where
  "broadcast_rows f32 latent_vector offset w j [] features = Inr features"
| "broadcast_rows f32 latent_vector offset w j (val1 # rest) features =
     (case py_getitem latent_vector val1 of
        Inl e \<Rightarrow> Inl e
      | Inr lrow \<Rightarrow>
          (case py_getitem_nat features j of
             Inl e \<Rightarrow> Inl e
           | Inr frow \<Rightarrow>
               (case assign_slice f32 frow offset (offset + w) lrow of
                  Inl e \<Rightarrow> Inl e
                | Inr frow' \<Rightarrow>
                    broadcast_rows f32 latent_vector offset w (Suc j) rest (features[j := frow']))))"

definition feature_column :: "string \<Rightarrow> string \<Rightarrow> string \<Rightarrow> nat \<Rightarrow> string" where
  "feature_column nm col1 col2 j = nm @ ''-'' @ col1 @ ''-'' @ col2 @ ''-'' @ str (int j)"

text \<open>
  The outer loop of \<open>get_feature\<close> over \<open>enumerate(zip(cs1, cs2, vs))\<close>, on the state
  \<open>(features, columns)\<close>.
\<close>

fun assemble ::
  "('v \<Rightarrow> 'v) \<Rightarrow> string \<Rightarrow> nat \<Rightarrow> dataframe \<Rightarrow> nat \<Rightarrow> (string \<times> string \<times> 'v matrix) list \<Rightarrow>
   'v matrix \<times> string list \<Rightarrow> error + 'v matrix \<times> string list" where
  "assemble f32 nm w df_data i [] (features, cols) = Inr (features, cols)"
| "assemble f32 nm w df_data i ((col1, col2, latent_vector) # rest) (features, cols) =
     (let offset = i * w;
          cols' = cols @ map (feature_column nm col1 col2) [0..<w]
      in case getitem df_data col1 of
           Inl e \<Rightarrow> Inl e
         | Inr vals1 \<Rightarrow>
             (case broadcast_rows f32 latent_vector offset w 0 vals1 features of
                Inl e \<Rightarrow> Inl e
              | Inr features' \<Rightarrow> assemble f32 nm w df_data (Suc i) rest (features', cols')))"

text \<open>
  \<open>get_feature\<close> reads \<open>self.name\<close> and \<open>self.width\<close> only, given here as \<open>nm\<close> and \<open>w\<close>.
  \<open>df_data\<close> is the frame \<open>pd.read_feather(path)\<close> returns: reading the file is outside
  the module.
\<close>

definition get_feature ::
  "('v::zero \<Rightarrow> 'v) \<Rightarrow> string \<Rightarrow> nat \<Rightarrow> dataframe \<Rightarrow> string list \<Rightarrow> string list \<Rightarrow> 'v matrix list \<Rightarrow>
   error + 'v table" where
  "get_feature f32 nm w df_data cs1 cs2 vs =
     (let features = zeros (length df_data) (length cs1 * w)
      in case assemble f32 nm w df_data 0 (zip cs1 (zip cs2 vs)) (features, []) of
           Inl e \<Rightarrow> Inl e
         | Inr (features', cols) \<Rightarrow> DataFrame features' cols)"

text \<open>
  \<open>Pool.map\<close> is taken by its contract: the results come in the order of the inputs, and
  an exception raised by a job is raised in the caller.
\<close>

fun pool_map :: "('a \<Rightarrow> error + 'b) \<Rightarrow> 'a list \<Rightarrow> error + 'b list" where
  "pool_map f [] = Inr []"
| "pool_map f (x # xs) =
     (case f x of
        Inl e \<Rightarrow> Inl e
      | Inr y \<Rightarrow> (case pool_map f xs of Inl e \<Rightarrow> Inl e | Inr ys \<Rightarrow> Inr (y # ys)))"

text \<open>The loop of \<open>transform\<close> over the results, on the state \<open>(col1s, col2s, latent_vectors)\<close>.\<close>

fun collect ::
  "('v \<Rightarrow> 'v) \<Rightarrow> (string \<times> string \<times> 'v matrix) list \<Rightarrow>
   string list \<times> string list \<times> 'v matrix list \<Rightarrow> string list \<times> string list \<times> 'v matrix list" where
  "collect f32 [] acc = acc"
| "collect f32 ((col1, col2, latent_vector) # rest) (col1s, col2s, latent_vectors) =
     collect f32 rest (col1s @ [col1], col2s @ [col2], latent_vectors @ [astype f32 latent_vector])"

text \<open>
  \<open>transform\<close> names \<open>train_path\<close> and \<open>test_path\<close> without defining them; the frames stored
  at these two paths are the parameters \<open>train_data\<close> and \<open>test_data\<close>.
\<close>

definition transform ::
  "('v::zero \<Rightarrow> 'v) \<Rightarrow> ('d, 'v) variant \<Rightarrow> dataframe \<Rightarrow> dataframe \<Rightarrow> dataframe \<Rightarrow>
   error + 'v table \<times> 'v table" where
  "transform f32 self dataframe train_data test_data =
     (let column_pairs = get_column_pairs
      in case pool_map (compute_latent_vectors self dataframe) column_pairs of
           Inl e \<Rightarrow> Inl e
         | Inr results \<Rightarrow>
             (case collect f32 results ([], [], []) of
                (col1s, col2s, latent_vectors) \<Rightarrow>
                  (case get_feature f32 (name self) (width self) train_data col1s col2s latent_vectors of
                     Inl e \<Rightarrow> Inl e
                   | Inr train \<Rightarrow>
                       (case get_feature f32 (name self) (width self) test_data col1s col2s latent_vectors of
                          Inl e \<Rightarrow> Inl e
                        | Inr test \<Rightarrow> Inr (train, test)))))"

subsection \<open>Single-pipeline variants: \<open>SinglePCACount\<close>, \<open>SinglePCATfIdf\<close>\<close>

text \<open>\<open>df_data[['ip', 'app', 'os', 'device', 'channel']].values\<close>.\<close>

definition key_values :: "dataframe \<Rightarrow> int list list" where
  "key_values df = map (\<lambda>c. [ip c, app c, os c, device c, channel c]) df"

definition numbered_columns :: "string \<Rightarrow> nat \<Rightarrow> string list" where
  "numbered_columns nm n_components = map (\<lambda>i. nm @ ''_'' @ str (int i)) [0..<n_components]"

text \<open>
  The two classes differ in the steps of their scikit-learn pipeline only. Its
  \<open>fit_transform\<close> is the parameter \<open>pipeline\<close>, given the number of components.
\<close>

definition SinglePCA_create_features ::
  "('v \<Rightarrow> 'v) \<Rightarrow> string \<Rightarrow> (nat \<Rightarrow> int list list \<Rightarrow> error + 'v matrix) \<Rightarrow> dataframe \<Rightarrow> dataframe \<Rightarrow>
   error + 'v table \<times> 'v table" where
  "SinglePCA_create_features f32 nm pipeline df_train df_test =
     (let train_length = length df_train;
          n_components = 30;
          df_data = df_train @ df_test
      in case pipeline n_components (key_values df_data) of
           Inl e \<Rightarrow> Inl e
         | Inr fitted \<Rightarrow>
             (let features = astype f32 fitted;
                  feature_columns = numbered_columns nm n_components
              in case DataFrame (take train_length features) feature_columns of
                   Inl e \<Rightarrow> Inl e
                 | Inr train \<Rightarrow>
                     (case DataFrame (drop train_length features) feature_columns of
                        Inl e \<Rightarrow> Inl e
                      | Inr test \<Rightarrow> Inr (train, test))))"

subsection \<open>Composite-key variant: \<open>UserItemLDA\<close>\<close>

text \<open>\<open>mask = (ip << 44) | (device << 20) | (os << 10) | channel\<close>, on Python integers.\<close>

definition pack_mask :: "click \<Rightarrow> int" where
  "pack_mask c = push_bit 44 (ip c) OR push_bit 20 (device c) OR push_bit 10 (os c) OR channel c"

text \<open>
  A dict keeps its items in insertion order: it is the list of its items, with one item
  per key. \<open>d[k] = v\<close> replaces the value of a key that is present and appends the item
  otherwise.
\<close>

type_synonym ('k, 'v) dict = "('k \<times> 'v) list"

definition dict_set :: "('k, 'v) dict \<Rightarrow> 'k \<Rightarrow> 'v \<Rightarrow> ('k, 'v) dict" where
  "dict_set d k v =
     (if k \<in> fst ` set d then map (\<lambda>(k', v'). if k' = k then (k', v) else (k', v')) d
      else d @ [(k, v)])"

text \<open>\<open>while len(values) <= mask_id: values.append([])\<close>.\<close>

function pad_values :: "int list list \<Rightarrow> nat \<Rightarrow> int list list" where
  "pad_values values mask_id =
     (if length values \<le> mask_id then pad_values (values @ [[]]) mask_id else values)"
  by pat_completeness auto
termination
  by (relation "measure (\<lambda>(values, mask_id). Suc mask_id - length values)") auto

declare pad_values.simps [simp del]

text \<open>
  One turn of the first loop, on the state \<open>(mask_to_id, values)\<close>. After the padding
  \<open>mask_id\<close> is a position of \<open>values\<close>, so \<open>values[mask_id]\<close> cannot raise.
\<close>

definition accumulate_step ::
  "(int, nat) dict \<times> int list list \<Rightarrow> click \<Rightarrow> (int, nat) dict \<times> int list list" where
  "accumulate_step st c =
     (case st of (mask_to_id, values) \<Rightarrow>
        (let mask' = pack_mask c
         in case (case map_of mask_to_id mask' of
                    Some k \<Rightarrow> (mask_to_id, k)
                  | None \<Rightarrow> (dict_set mask_to_id mask' (length mask_to_id), length mask_to_id)) of
              (mask_to_id', mask_id) \<Rightarrow>
                (let padded = pad_values values mask_id
                 in (mask_to_id', padded[mask_id := padded ! mask_id @ [app c]]))))"

definition accumulate :: "dataframe \<Rightarrow> (int, nat) dict \<times> int list list" where
  "accumulate df_data = fold (\<lambda>c st. accumulate_step st c) df_data ([], [])"

text \<open>
  The second loop, over \<open>mask_to_id.items()\<close>, on the state \<open>(new_values, new_mask_to_id)\<close>.
\<close>

fun create_new_mask_id ::
  "nat \<Rightarrow> int list list \<Rightarrow> (int \<times> nat) list \<Rightarrow> int list list \<times> (int, nat) dict \<Rightarrow>
   error + int list list \<times> (int, nat) dict" where
  "create_new_mask_id threshold values [] (new_values, new_mask_to_id) =
     Inr (new_values, new_mask_to_id)"
| "create_new_mask_id threshold values ((mask', mask_id) # items) (new_values, new_mask_to_id) =
     (case py_getitem_nat values mask_id of
        Inl e \<Rightarrow> Inl e
      | Inr tokens \<Rightarrow>
          if length tokens \<ge> threshold
          then (let new_mask_id = length new_values
                in create_new_mask_id threshold values items
                     (new_values @ [tokens], dict_set new_mask_to_id mask' new_mask_id))
          else create_new_mask_id threshold values items (new_values, new_mask_to_id))"

definition convert_to_documents :: "int list list \<Rightarrow> string list" where
  "convert_to_documents values = map (\<lambda>ls. join '' '' (map str ls)) values"

text \<open>The \<open>min_df\<close> of the \<open>CountVectorizer\<close> that is built for \<open>len(df_data)\<close> rows.\<close>

definition vectorizer_min_df :: "nat \<Rightarrow> nat" where
  "vectorizer_min_df len_df_data = (if len_df_data < 1000 * 1000 then 1 else 2)"

text \<open>
  The last loop, over the rows of \<open>df_data\<close> numbered from \<open>i\<close>:
  \<open>if mask in mask_to_id: features[i, :] = components[mask_to_id[mask]]\<close>.
\<close>

fun create_feature_matrix ::
  "('v \<Rightarrow> 'v) \<Rightarrow> 'v matrix \<Rightarrow> (int, nat) dict \<Rightarrow> nat \<Rightarrow> click list \<Rightarrow> 'v matrix \<Rightarrow> error + 'v matrix" where
  "create_feature_matrix f32 components mask_to_id i [] features = Inr features"
| "create_feature_matrix f32 components mask_to_id i (c # rest) features =
     (case map_of mask_to_id (pack_mask c) of
        None \<Rightarrow> create_feature_matrix f32 components mask_to_id (Suc i) rest features
      | Some mask_id \<Rightarrow>
          (case py_getitem_nat components mask_id of
             Inl e \<Rightarrow> Inl e
           | Inr lrow \<Rightarrow>
               (case py_getitem_nat features i of
                  Inl e \<Rightarrow> Inl e
                | Inr frow \<Rightarrow>
                    (case assign_slice f32 frow 0 (length frow) lrow of
                       Inl e \<Rightarrow> Inl e
                     | Inr frow' \<Rightarrow>
                         create_feature_matrix f32 components mask_to_id (Suc i) rest
                           (features[i := frow'])))))"

text \<open>
  \<open>count_vectorizer min_df\<close> is the \<open>fit_transform\<close> of \<open>CountVectorizer(min_df=min_df)\<close>, and
  \<open>lda n\<close> that of the \<open>LatentDirichletAllocation\<close> of \<open>n\<close> components; both are
  scikit-learn estimators, outside this module.
\<close>

definition UserItemLDA_create_features ::
  "('v::zero \<Rightarrow> 'v) \<Rightarrow> string \<Rightarrow> (nat \<Rightarrow> string list \<Rightarrow> error + 'd) \<Rightarrow> (nat \<Rightarrow> 'd \<Rightarrow> error + 'v matrix) \<Rightarrow>
   dataframe \<Rightarrow> dataframe \<Rightarrow> error + 'v table \<times> 'v table" where
  "UserItemLDA_create_features f32 nm count_vectorizer lda df_train df_test =
     (let train_length = length df_train;
          n_components = 30;
          threshold = 3;
          df_data = df_train @ df_test
      in case accumulate df_data of
           (mask_to_id, values) \<Rightarrow>
             (case create_new_mask_id threshold values mask_to_id ([], []) of
                Inl e \<Rightarrow> Inl e
              | Inr (new_values, new_mask_to_id) \<Rightarrow>
                  (case count_vectorizer (vectorizer_min_df (length df_data))
                          (convert_to_documents new_values) of
                     Inl e \<Rightarrow> Inl e
                   | Inr document_term_matrix \<Rightarrow>
                       (case lda n_components document_term_matrix of
                          Inl e \<Rightarrow> Inl e
                        | Inr components \<Rightarrow>
                            (case create_feature_matrix f32 components new_mask_to_id 0 df_data
                                    (zeros (length df_data) n_components) of
                               Inl e \<Rightarrow> Inl e
                             | Inr features \<Rightarrow>
                                 (let feature_columns = numbered_columns nm n_components
                                  in case DataFrame (take train_length features) feature_columns of
                                       Inl e \<Rightarrow> Inl e
                                     | Inr train \<Rightarrow>
                                         (case DataFrame (drop train_length features) feature_columns of
                                            Inl e \<Rightarrow> Inl e
                                          | Inr test \<Rightarrow> Inr (train, test))))))))"

subsection \<open>Reference notions and sample data\<close>

text \<open>
  The values of the second column on the rows whose first column is \<open>k\<close>, in row order:
  what the specification calls the col2 values observed for the col1 value \<open>k\<close>.
\<close>

definition tokens_for :: "int list \<Rightarrow> int list \<Rightarrow> nat \<Rightarrow> int list" where
  "tokens_for vals1 vals2 k = map snd (filter (\<lambda>p. fst p = int k) (zip vals1 vals2))"

definition demo_clicks :: dataframe where
  "demo_clicks =
     [\<lparr>ip = 2, app = 7, os = 0, device = 0, channel = 0\<rparr>,
      \<lparr>ip = 0, app = 10, os = 0, device = 0, channel = 0\<rparr>,
      \<lparr>ip = 2, app = 5, os = 0, device = 0, channel = 0\<rparr>]"

text \<open>
  The composite-key variant in the specification's words: the token list of a grouping
  key is the \<open>app\<close> values of the rows with that key, in row order; the keys are taken
  in the order in which they are first seen; the surviving keys are those whose token
  list has at least \<open>threshold\<close> entries.
\<close>

definition key_tokens :: "dataframe \<Rightarrow> int \<Rightarrow> int list" where
  "key_tokens df k = map app (filter (\<lambda>c. pack_mask c = k) df)"

definition first_seen :: "'a list \<Rightarrow> 'a list" where
  "first_seen ks = rev (remdups (rev ks))"

definition surviving_keys :: "nat \<Rightarrow> dataframe \<Rightarrow> int list" where
  "surviving_keys threshold df =
     filter (\<lambda>k. threshold \<le> length (key_tokens df k)) (first_seen (map pack_mask df))"

text \<open>The key columns of a row fit the bit widths that \<open>pack_mask\<close> allots to them.\<close>

definition fits_widths :: "click \<Rightarrow> bool" where
  "fits_widths c \<longleftrightarrow>
     0 \<le> channel c \<and> channel c < 2 ^ 10 \<and> 0 \<le> os c \<and> os c < 2 ^ 10 \<and>
     0 \<le> device c \<and> device c < 2 ^ 24"

text \<open>
  Stand-ins for the scikit-learn estimators, to run the pipelines on sample data. The
  vectorizer keeps the documents and its \<open>min_df\<close>, and fails without documents as
  \<open>CountVectorizer\<close> does; the factorizer gives document \<open>d\<close> the row whose entries are all
  \<open>d + min_df\<close>; the single pipeline gives every row the number of rows it was fitted on.
\<close>

definition sample_vectorizer :: "nat \<Rightarrow> string list \<Rightarrow> error + nat \<times> string list" where
  "sample_vectorizer min_df documents =
     (if documents = [] then Inl SklearnError else Inr (min_df, documents))"

definition sample_lda :: "nat \<Rightarrow> nat \<times> string list \<Rightarrow> error + int matrix" where
  "sample_lda n_components dtm =
     Inr (map (\<lambda>d. replicate n_components (int d + int (fst dtm))) [0..<length (snd dtm)])"

definition sample_pipeline :: "nat \<Rightarrow> int list list \<Rightarrow> error + int matrix" where
  "sample_pipeline n_components rows =
     Inr (map (\<lambda>row. replicate n_components (int (length rows))) rows)"

text \<open>Two rows with distinct key columns and the same packed key: a channel of 11 bits.\<close>

definition click_a :: click where
  "click_a = \<lparr>ip = 0, app = 7, os = 1, device = 0, channel = 0\<rparr>"

definition click_b :: click where
  "click_b = \<lparr>ip = 0, app = 8, os = 0, device = 0, channel = 1024\<rparr>"

definition click_c :: click where
  "click_c = \<lparr>ip = 5, app = 9, os = 3, device = 2, channel = 1\<rparr>"

section \<open>Broadcast/Assembler\<close>

lemma getitem_length: "getitem df col = Inr xs \<Longrightarrow> length xs = length df"
  by (auto simp: getitem_def split: if_splits)

lemma py_getitem_in_range:
  "0 \<le> v \<Longrightarrow> v < int (length xs) \<Longrightarrow> py_getitem xs v = Inr (xs ! nat v)"
  by (simp add: py_getitem_def py_position_def)

lemma assign_slice_exact:
  "length val = w \<Longrightarrow> offset + w \<le> length frow \<Longrightarrow>
   assign_slice f32 frow offset (offset + w) val =
     Inr (take offset frow @ map f32 val @ drop (offset + w) frow)"
  by (simp add: assign_slice_def Let_def min_def max_def)

lemma take_prefix_agree:
  "take n xs = take n ys \<Longrightarrow> m \<le> n \<Longrightarrow> take m xs = take m ys"
  by (metis min.absorb_iff1 take_take)

lemma slice_agree:
  assumes "take n xs = take n ys" and "m + w \<le> n"
  shows "take w (drop m xs) = take w (drop m ys)"
proof -
  have "take w (drop m zs) = take w (drop m (take n zs))" for zs :: "'a list"
    using assms(2) by (simp add: drop_take min_def)
  with assms(1) show ?thesis by metis
qed

lemma broadcast_rows_ok:
  assumes "\<forall>v \<in> set vals. 0 \<le> v \<and> v < int (length lv)"
    and "\<forall>row \<in> set lv. length row = w"
    and "j + length vals \<le> length F"
    and "\<forall>r < length F. offset + w \<le> length (F ! r)"
  shows "\<exists>F'. broadcast_rows f32 lv offset w j vals F = Inr F' \<and> length F' = length F \<and>
     (\<forall>r < length F. F' ! r =
        (if j \<le> r \<and> r < j + length vals
         then take offset (F ! r) @ map f32 (lv ! nat (vals ! (r - j))) @ drop (offset + w) (F ! r)
         else F ! r))"
  using assms
proof (induction vals arbitrary: j F)
  case Nil
  then show ?case by auto
next
  case (Cons v vals)
  from Cons.prems(1) have v: "0 \<le> v" "v < int (length lv)" by auto
  then have get: "py_getitem lv v = Inr (lv ! nat v)" by (rule py_getitem_in_range)
  from v have "lv ! nat v \<in> set lv" by simp
  with Cons.prems(2) have len_row: "length (lv ! nat v) = w" by blast
  from Cons.prems(3) have j: "j < length F" by simp
  then have getF: "py_getitem_nat F j = Inr (F ! j)" by (simp add: py_getitem_nat_def)
  from Cons.prems(4) j have fit: "offset + w \<le> length (F ! j)" by blast
  let ?fr = "take offset (F ! j) @ map f32 (lv ! nat v) @ drop (offset + w) (F ! j)"
  have asg: "assign_slice f32 (F ! j) offset (offset + w) (lv ! nat v) = Inr ?fr"
    using len_row fit by (rule assign_slice_exact)
  let ?F = "F[j := ?fr]"
  have len_fr: "length ?fr = length (F ! j)" using len_row fit by simp
  have p1: "\<forall>v \<in> set vals. 0 \<le> v \<and> v < int (length lv)" using Cons.prems(1) by simp
  have p3: "Suc j + length vals \<le> length ?F" using Cons.prems(3) by simp
  have p4: "\<forall>r < length ?F. offset + w \<le> length (?F ! r)"
  proof (intro allI impI)
    fix r assume r: "r < length ?F"
    show "offset + w \<le> length (?F ! r)"
    proof (cases "r = j")
      case True
      then have "?F ! r = ?fr" using j by (simp only: nth_list_update_eq)
      with len_fr fit show ?thesis by (simp only:)
    next
      case False
      then have "?F ! r = F ! r" by (simp only: nth_list_update_neq not_sym)
      with Cons.prems(4) r show ?thesis by simp
    qed
  qed
  from Cons.IH [OF p1 Cons.prems(2) p3 p4]
  obtain F' where F': "broadcast_rows f32 lv offset w (Suc j) vals ?F = Inr F'"
    "length F' = length ?F"
    "\<forall>r < length ?F. F' ! r =
        (if Suc j \<le> r \<and> r < Suc j + length vals
         then take offset (?F ! r) @ map f32 (lv ! nat (vals ! (r - Suc j))) @ drop (offset + w) (?F ! r)
         else ?F ! r)"
    by blast
  have run: "broadcast_rows f32 lv offset w j (v # vals) F = Inr F'"
    using get getF asg F'(1) by simp
  have "F' ! r =
        (if j \<le> r \<and> r < j + length (v # vals)
         then take offset (F ! r) @ map f32 (lv ! nat ((v # vals) ! (r - j))) @ drop (offset + w) (F ! r)
         else F ! r)" if r: "r < length F" for r
  proof (cases "r = j")
    case True
    with F'(3) j show ?thesis by simp
  next
    case False
    with F'(3) r show ?thesis by (auto simp: nth_Cons' nth_list_update)
  qed
  with run F'(2) show ?case by simp
qed

lemma assemble_columns:
  "assemble f32 nm w df i triples (F, cols) = Inr (F', cols') \<Longrightarrow>
   cols' = cols @ concat (map (\<lambda>(c1, c2, lv). map (feature_column nm c1 c2) [0..<w]) triples)"
proof (induction triples arbitrary: i F cols)
  case Nil
  then show ?case by simp
next
  case (Cons t triples)
  obtain c1 c2 lv where t: "t = (c1, c2, lv)" by (cases t)
  from Cons.prems t obtain vals1 F1 where
    "assemble f32 nm w df (Suc i) triples (F1, cols @ map (feature_column nm c1 c2) [0..<w]) = Inr (F', cols')"
    by (auto simp: Let_def split: sum.splits)
  from Cons.IH [OF this] t show ?case by simp
qed

lemma assemble_ok:
  assumes "\<forall>t \<in> set triples. case t of (c1, c2, lv) \<Rightarrow>
             (\<exists>xs. getitem df c1 = Inr xs \<and> (\<forall>x \<in> set xs. 0 \<le> x \<and> x < int (length lv))) \<and>
             (\<forall>row \<in> set lv. length row = w)"
    and "length F = length df"
    and "\<forall>r < length F. (i + length triples) * w \<le> length (F ! r)"
  shows "\<exists>F' cols'. assemble f32 nm w df i triples (F, cols) = Inr (F', cols') \<and>
           length F' = length F \<and>
           (\<forall>r < length F. length (F' ! r) = length (F ! r) \<and>
              take (i * w) (F' ! r) = take (i * w) (F ! r) \<and>
              (\<forall>k < length triples. case triples ! k of (c1, c2, lv) \<Rightarrow>
                 \<forall>xs. getitem df c1 = Inr xs \<longrightarrow>
                   take w (drop ((i + k) * w) (F' ! r)) = map f32 (lv ! nat (xs ! r))))"
  using assms
proof (induction triples arbitrary: i F cols)
  case Nil
  then show ?case by simp
next
  case (Cons t triples)
  obtain c1 c2 lv where t: "t = (c1, c2, lv)" by (cases t)
  from Cons.prems(1) t obtain xs where xs: "getitem df c1 = Inr xs"
    and rng: "\<forall>x \<in> set xs. 0 \<le> x \<and> x < int (length lv)"
    and shape: "\<forall>row \<in> set lv. length row = w"
    by auto
  from xs have len_xs: "length xs = length df" by (rule getitem_length)
  have fit: "\<forall>r < length F. i * w + w \<le> length (F ! r)"
    using Cons.prems(3) by (auto simp: algebra_simps)
  have "0 + length xs \<le> length F" using len_xs Cons.prems(2) by simp
  from broadcast_rows_ok [OF rng shape this fit, of f32]
  obtain F1 where F1: "broadcast_rows f32 lv (i * w) w 0 xs F = Inr F1" "length F1 = length F"
    and F1_row: "\<forall>r < length F. F1 ! r =
        take (i * w) (F ! r) @ map f32 (lv ! nat (xs ! r)) @ drop (i * w + w) (F ! r)"
    using len_xs Cons.prems(2) by auto
  have row_len: "length (lv ! nat (xs ! r)) = w" if "r < length F" for r
  proof -
    from that len_xs Cons.prems(2) have "xs ! r \<in> set xs" by simp
    with rng have "0 \<le> xs ! r" "xs ! r < int (length lv)" by auto
    then have "lv ! nat (xs ! r) \<in> set lv" by simp
    with shape show ?thesis by blast
  qed
  have F1_len: "length (F1 ! r) = length (F ! r)" if "r < length F" for r
    using that F1_row fit row_len [OF that] by simp
  have p1: "\<forall>t \<in> set triples. case t of (c1, c2, lv) \<Rightarrow>
             (\<exists>xs. getitem df c1 = Inr xs \<and> (\<forall>x \<in> set xs. 0 \<le> x \<and> x < int (length lv))) \<and>
             (\<forall>row \<in> set lv. length row = w)"
    using Cons.prems(1) by simp
  have p2: "length F1 = length df" using F1(2) Cons.prems(2) by simp
  have p3: "\<forall>r < length F1. (Suc i + length triples) * w \<le> length (F1 ! r)"
    using Cons.prems(3) F1(2) F1_len by simp
  let ?cols = "cols @ map (feature_column nm c1 c2) [0..<w]"
  from Cons.IH [OF p1 p2 p3, of ?cols]
  obtain F' cols' where run': "assemble f32 nm w df (Suc i) triples (F1, ?cols) = Inr (F', cols')"
    and len': "length F' = length F1"
    and rows': "\<forall>r < length F1. length (F' ! r) = length (F1 ! r) \<and>
              take (Suc i * w) (F' ! r) = take (Suc i * w) (F1 ! r) \<and>
              (\<forall>k < length triples. case triples ! k of (c1, c2, lv) \<Rightarrow>
                 \<forall>xs. getitem df c1 = Inr xs \<longrightarrow>
                   take w (drop ((Suc i + k) * w) (F' ! r)) = map f32 (lv ! nat (xs ! r)))"
    by blast
  have run: "assemble f32 nm w df i (t # triples) (F, cols) = Inr (F', cols')"
    using t xs F1(1) run' by (simp add: Let_def)
  have rows: "length (F' ! r) = length (F ! r) \<and>
              take (i * w) (F' ! r) = take (i * w) (F ! r) \<and>
              (\<forall>k < length (t # triples). case (t # triples) ! k of (c1, c2, lv) \<Rightarrow>
                 \<forall>xs. getitem df c1 = Inr xs \<longrightarrow>
                   take w (drop ((i + k) * w) (F' ! r)) = map f32 (lv ! nat (xs ! r)))"
    if r: "r < length F" for r
  proof -
    from r F1(2) have r1: "r < length F1" by simp
    note rr = rows' [rule_format, OF r1]
    note a = rr [THEN conjunct1]
    note b = rr [THEN conjunct2, THEN conjunct1]
    note c = rr [THEN conjunct2, THEN conjunct2]
    from fit r have fitr: "i * w + w \<le> length (F ! r)" by blast
    from F1_row r have F1r: "F1 ! r =
        take (i * w) (F ! r) @ map f32 (lv ! nat (xs ! r)) @ drop (i * w + w) (F ! r)" by blast
    have l1: "length (F' ! r) = length (F ! r)" using a F1_len [OF r] by simp
    have "take (i * w) (F' ! r) = take (i * w) (F1 ! r)"
      using b by (rule take_prefix_agree) simp
    also have "\<dots> = take (i * w) (F ! r)"
      using F1r fitr by simp
    finally have l2: "take (i * w) (F' ! r) = take (i * w) (F ! r)" .
    have "take w (drop (i * w) (F' ! r)) = take w (drop (i * w) (F1 ! r))"
      using b by (rule slice_agree) simp
    also have "\<dots> = map f32 (lv ! nat (xs ! r))"
      using F1r fitr row_len [OF r] by simp
    finally have k0: "take w (drop (i * w) (F' ! r)) = map f32 (lv ! nat (xs ! r))" .
    have l3: "case (t # triples) ! k of (c1, c2, lv) \<Rightarrow>
                 \<forall>xs. getitem df c1 = Inr xs \<longrightarrow>
                   take w (drop ((i + k) * w) (F' ! r)) = map f32 (lv ! nat (xs ! r))"
      if k: "k < length (t # triples)" for k
    proof (cases k)
      case 0
      with t xs k0 show ?thesis by simp
    next
      case (Suc k')
      with k have "k' < length triples" by simp
      from c [rule_format, OF this] Suc show ?thesis by simp
    qed
    show ?thesis
      by (intro conjI allI impI) (rule l1 l2 l3 | assumption)+
  qed
  show ?case
  proof (intro exI conjI)
    show "assemble f32 nm w df i (t # triples) (F, cols) = Inr (F', cols')" by (rule run)
    show "length F' = length F" using len' F1(2) by simp
    show "\<forall>r < length F. length (F' ! r) = length (F ! r) \<and>
              take (i * w) (F' ! r) = take (i * w) (F ! r) \<and>
              (\<forall>k < length (t # triples). case (t # triples) ! k of (c1, c2, lv) \<Rightarrow>
                 \<forall>xs. getitem df c1 = Inr xs \<longrightarrow>
                   take w (drop ((i + k) * w) (F' ! r)) = map f32 (lv ! nat (xs ! r)))"
      by (intro allI impI) (rule rows)
  qed
qed

lemma length_concat_blocks:
  "\<forall>x \<in> set xs. length (f x) = w \<Longrightarrow> length (concat (map f xs)) = length xs * w"
  by (induction xs) simp_all

lemma concat_blocks_nth:
  "\<forall>x \<in> set xs. length (f x) = w \<Longrightarrow> i < length xs \<Longrightarrow> j < w \<Longrightarrow>
   concat (map f xs) ! (i * w + j) = f (xs ! i) ! j"
proof (induction xs arbitrary: i)
  case Nil
  then show ?case by simp
next
  case (Cons x xs)
  show ?case
  proof (cases i)
    case 0
    with Cons.prems show ?thesis by (simp add: nth_append)
  next
    case (Suc i')
    with Cons.prems have "concat (map f xs) ! (i' * w + j) = f (xs ! i') ! j"
      by (intro Cons.IH) simp_all
    moreover have "length (f x) = w" using Cons.prems(1) by simp
    ultimately show ?thesis using Suc
      by (simp add: nth_append)
  qed
qed

lemma zip3_nth:
  "length cs2 = length cs1 \<Longrightarrow> length vs = length cs1 \<Longrightarrow> i < length cs1 \<Longrightarrow>
   zip cs1 (zip cs2 vs) ! i = (cs1 ! i, cs2 ! i, vs ! i)"
  by simp

lemma get_feature_columns:
  assumes "get_feature f32 nm w df cs1 cs2 vs = Inr T"
  shows "columns T =
    concat (map (\<lambda>(c1, c2, lv). map (feature_column nm c1 c2) [0..<w]) (zip cs1 (zip cs2 vs)))"
proof -
  from assms obtain F' cols' where
    run: "assemble f32 nm w df 0 (zip cs1 (zip cs2 vs)) (zeros (length df) (length cs1 * w), []) = Inr (F', cols')"
    and T: "DataFrame F' cols' = Inr T"
    by (auto simp: get_feature_def Let_def split: sum.splits)
  from T have "columns T = cols'"
    by (auto simp: DataFrame_def split: if_splits)
  with assemble_columns [OF run] show ?thesis by simp
qed

text \<open>
  C8: in the table \<open>get_feature\<close> returns for as many column names and latent matrices as
  there are pairs, the columns of the \<open>i\<close>-th pair \<open>(col1, col2)\<close> are named
  \<open>name-col1-col2-j\<close> for \<open>j\<close> from 0 to \<open>width - 1\<close>, in that order, and the number of
  columns is the number of pairs times the width.
\<close>

theorem get_feature_column_names:
  assumes run: "get_feature f32 nm w df cs1 cs2 vs = Inr T"
    and len2: "length cs2 = length cs1"
    and len3: "length vs = length cs1"
  shows "length (columns T) = length cs1 * w \<and>
    (\<forall>i < length cs1. \<forall>j < w.
       columns T ! (i * w + j) = nm @ ''-'' @ cs1 ! i @ ''-'' @ cs2 ! i @ ''-'' @ str (int j))"
proof -
  let ?triples = "zip cs1 (zip cs2 vs)"
  let ?block = "\<lambda>(c1, c2, lv :: 'a list list). map (feature_column nm c1 c2) [0..<w]"
  have cols: "columns T = concat (map ?block ?triples)"
    using run by (rule get_feature_columns)
  have blocks: "\<forall>t \<in> set ?triples. length (?block t) = w" by auto
  have n: "length ?triples = length cs1" using len2 len3 by simp
  have count: "length (columns T) = length cs1 * w"
    using cols length_concat_blocks [OF blocks] n by simp
  have "columns T ! (i * w + j) = nm @ ''-'' @ cs1 ! i @ ''-'' @ cs2 ! i @ ''-'' @ str (int j)"
    if i: "i < length cs1" and j: "j < w" for i j
  proof -
    from i n have "i < length ?triples" by simp
    from concat_blocks_nth [OF blocks this j]
    have "columns T ! (i * w + j) = ?block (?triples ! i) ! j" using cols by simp
    also have "?triples ! i = (cs1 ! i, cs2 ! i, vs ! i)" using len2 len3 i by (rule zip3_nth)
    finally show ?thesis using j by (simp add: feature_column_def)
  qed
  with count show ?thesis by blast
qed

text \<open>
  C1: when every \<open>col1\<close> value of the data set is a dense zero-based id in range for its
  latent matrix, and the collected latent matrices are float32 matrices of \<open>width\<close> columns
  (as \<open>transform\<close> collects them), \<open>get_feature\<close> returns a table in which, for every pair
  index \<open>i\<close> and every row \<open>r\<close>, the slice of row \<open>r\<close> at the columns \<open>[i * width, (i + 1) * width)\<close>
  is the row of the \<open>i\<close>-th latent matrix at index \<open>dataset[r][col1]\<close>.
\<close>

theorem get_feature_broadcast:
  assumes len2: "length cs2 = length cs1"
    and len3: "length vs = length cs1"
    and dense: "\<forall>i < length cs1. \<exists>xs. getitem df (cs1 ! i) = Inr xs \<and>
                  (\<forall>x \<in> set xs. 0 \<le> x \<and> x < int (length (vs ! i)))"
    and shape: "\<forall>i < length cs1. \<forall>row \<in> set (vs ! i). length row = w"
    and float32: "\<forall>i < length cs1. \<forall>row \<in> set (vs ! i). \<forall>x \<in> set row. f32 x = x"
  shows "\<exists>T. get_feature f32 nm w df cs1 cs2 vs = Inr T \<and> length (data T) = length df \<and>
    (\<forall>i < length cs1. \<forall>r < length df. \<forall>xs. getitem df (cs1 ! i) = Inr xs \<longrightarrow>
       take w (drop (i * w) (data T ! r)) = vs ! i ! nat (xs ! r))"
proof -
  let ?triples = "zip cs1 (zip cs2 vs)"
  let ?F = "zeros (length df) (length cs1 * w) :: 'a list list"
  have n: "length ?triples = length cs1" using len2 len3 by simp
  have nth_t: "?triples ! i = (cs1 ! i, cs2 ! i, vs ! i)" if "i < length cs1" for i
    using len2 len3 that by (rule zip3_nth)
  have pre: "\<forall>t \<in> set ?triples. case t of (c1, c2, lv) \<Rightarrow>
             (\<exists>xs. getitem df c1 = Inr xs \<and> (\<forall>x \<in> set xs. 0 \<le> x \<and> x < int (length lv))) \<and>
             (\<forall>row \<in> set lv. length row = w)"
  proof
    fix t assume "t \<in> set ?triples"
    then obtain i where i: "i < length ?triples" and t: "t = ?triples ! i"
      by (auto simp: in_set_conv_nth)
    from i n have i': "i < length cs1" by simp
    from t nth_t [OF i'] have "t = (cs1 ! i, cs2 ! i, vs ! i)" by simp
    with dense shape i' show "case t of (c1, c2, lv) \<Rightarrow>
             (\<exists>xs. getitem df c1 = Inr xs \<and> (\<forall>x \<in> set xs. 0 \<le> x \<and> x < int (length lv))) \<and>
             (\<forall>row \<in> set lv. length row = w)"
      by simp
  qed
  have lenF: "length ?F = length df" by (simp add: zeros_def)
  have rowsF: "\<forall>r < length ?F. (0 + length ?triples) * w \<le> length (?F ! r)"
    using n by (simp add: zeros_def)
  from assemble_ok [OF pre lenF rowsF, of f32 nm "[]"]
  obtain F' cols' where run: "assemble f32 nm w df 0 ?triples (?F, []) = Inr (F', cols')"
    and lenF': "length F' = length ?F"
    and rows: "\<forall>r < length ?F. length (F' ! r) = length (?F ! r) \<and>
              take (0 * w) (F' ! r) = take (0 * w) (?F ! r) \<and>
              (\<forall>k < length ?triples. case ?triples ! k of (c1, c2, lv) \<Rightarrow>
                 \<forall>xs. getitem df c1 = Inr xs \<longrightarrow>
                   take w (drop ((0 + k) * w) (F' ! r)) = map f32 (lv ! nat (xs ! r)))"
    by blast
  have cols': "cols' = concat (map (\<lambda>(c1, c2, lv). map (feature_column nm c1 c2) [0..<w]) ?triples)"
    using assemble_columns [OF run] by simp
  have "\<forall>t \<in> set ?triples. length ((\<lambda>(c1, c2, lv). map (feature_column nm c1 c2) [0..<w]) t) = w"
    by auto
  from length_concat_blocks [OF this] have len_cols: "length cols' = length cs1 * w"
    using cols' n by simp
  have row_len: "length row = length cols'" if "row \<in> set F'" for row
  proof -
    from that obtain r where r: "r < length F'" and row: "row = F' ! r"
      by (auto simp: in_set_conv_nth)
    from r lenF' have r': "r < length ?F" by simp
    from rows [rule_format, OF r', THEN conjunct1] row
    have "length row = length (?F ! r)" by simp
    also have "\<dots> = length cs1 * w" using r' by (simp add: zeros_def)
    finally show ?thesis using len_cols by simp
  qed
  then have "list_all (\<lambda>row. length row = length cols') F'"
    by (simp add: list_all_iff)
  then have df_ok: "DataFrame F' cols' = Inr \<lparr>columns = cols', data = F'\<rparr>"
    by (simp add: DataFrame_def)
  let ?T = "\<lparr>columns = cols', data = F'\<rparr>"
  have result: "get_feature f32 nm w df cs1 cs2 vs = Inr ?T"
    using run df_ok by (simp add: get_feature_def Let_def)
  have slice: "take w (drop (i * w) (data ?T ! r)) = vs ! i ! nat (xs ! r)"
    if i: "i < length cs1" and r: "r < length df" and xs: "getitem df (cs1 ! i) = Inr xs"
    for i r xs
  proof -
    from r lenF have r': "r < length ?F" by simp
    from i n have i': "i < length ?triples" by simp
    note k = rows [rule_format, OF r', THEN conjunct2, THEN conjunct2, rule_format, OF i']
    with nth_t [OF i] xs
    have eq: "take w (drop (i * w) (F' ! r)) = map f32 (vs ! i ! nat (xs ! r))" by simp
    from dense i xs have "\<forall>x \<in> set xs. 0 \<le> x \<and> x < int (length (vs ! i))" by auto
    moreover have "xs ! r \<in> set xs" using r getitem_length [OF xs] by simp
    ultimately have "0 \<le> xs ! r" "xs ! r < int (length (vs ! i))" by auto
    then have "vs ! i ! nat (xs ! r) \<in> set (vs ! i)" by simp
    with float32 i have "\<forall>x \<in> set (vs ! i ! nat (xs ! r)). f32 x = x" by blast
    then have "map f32 (vs ! i ! nat (xs ! r)) = vs ! i ! nat (xs ! r)"
      by (simp add: map_idI)
    with eq show ?thesis by simp
  qed
  show ?thesis
  proof (intro exI conjI)
    show "get_feature f32 nm w df cs1 cs2 vs = Inr ?T" by (rule result)
    show "length (data ?T) = length df" using lenF' lenF by simp
    show "\<forall>i < length cs1. \<forall>r < length df. \<forall>xs. getitem df (cs1 ! i) = Inr xs \<longrightarrow>
       take w (drop (i * w) (data ?T ! r)) = vs ! i ! nat (xs ! r)"
      by (intro allI impI) (rule slice)
  qed
qed

lemma demo_feature:
  "get_feature (\<lambda>x. x) ''lda'' 2 demo_clicks [''ip''] [''app''] [[[1, 2], [3, 4], [5, 6 :: int]]]
     = Inr \<lparr>columns = [''lda-ip-app-0'', ''lda-ip-app-1''], data = [[5, 6], [1, 2], [5, 6]]\<rparr>"
  by code_simp

theorem get_feature_column_names_witness:
  "\<exists>T. get_feature (\<lambda>x. x) ''lda'' 2 demo_clicks [''ip''] [''app''] [[[1, 2], [3, 4], [5, 6 :: int]]] = Inr T \<and>
     length (columns T) = 2 \<and> columns T ! 0 = ''lda-ip-app-0'' \<and> columns T ! 1 = ''lda-ip-app-1''"
proof -
  let ?T = "\<lparr>columns = [''lda-ip-app-0'', ''lda-ip-app-1''], data = [[5, 6], [1, 2], [5, 6 :: int]]\<rparr>"
  from get_feature_column_names [OF demo_feature]
  have "length (columns ?T) = length [''ip''] * 2" by simp
  then show ?thesis using demo_feature by simp
qed

theorem get_feature_broadcast_witness:
  "\<exists>T. get_feature (\<lambda>x. x) ''lda'' 2 demo_clicks [''ip''] [''app''] [[[1, 2], [3, 4], [5, 6 :: int]]] = Inr T \<and>
     length (data T) = 3 \<and> take 2 (drop (0 * 2) (data T ! 0)) = [5, 6]"
proof -
  let ?vs = "[[[1, 2], [3, 4], [5, 6 :: int]]]"
  have ip: "getitem demo_clicks ''ip'' = Inr [2, 0, 2]"
    by (simp add: getitem_def demo_clicks_def)
  have dense: "\<forall>i < length [''ip'']. \<exists>xs. getitem demo_clicks ([''ip''] ! i) = Inr xs \<and>
                  (\<forall>x \<in> set xs. 0 \<le> x \<and> x < int (length (?vs ! i)))"
    using ip by simp
  have shape: "\<forall>i < length [''ip'']. \<forall>row \<in> set (?vs ! i). length row = 2" by simp
  have float32: "\<forall>i < length [''ip'']. \<forall>row \<in> set (?vs ! i). \<forall>x \<in> set row. (\<lambda>x. x) x = x" by simp
  from get_feature_broadcast [OF _ _ dense shape float32, of "[''app'']" "''lda''"]
  obtain T where T: "get_feature (\<lambda>x. x) ''lda'' 2 demo_clicks [''ip''] [''app''] ?vs = Inr T"
    "length (data T) = length demo_clicks"
    "\<forall>i < length [''ip'']. \<forall>r < length demo_clicks. \<forall>xs. getitem demo_clicks ([''ip''] ! i) = Inr xs \<longrightarrow>
       take 2 (drop (i * 2) (data T ! r)) = ?vs ! i ! nat (xs ! r)"
    by auto
  from T(3) ip have "take 2 (drop (0 * 2) (data T ! 0)) = ?vs ! 0 ! nat ([2, 0, 2] ! 0)"
    by (simp add: demo_clicks_def)
  with T(1,2) show ?thesis by (simp add: demo_clicks_def)
qed

section \<open>Document Builder\<close>

lemma append_values_ok:
  "\<forall>p \<in> set ps. 0 \<le> fst p \<and> fst p < int (length L) \<Longrightarrow>
   append_values L ps =
     Inr (map (\<lambda>k. L ! k @ map snd (filter (\<lambda>p. fst p = int k) ps)) [0..<length L])"
proof (induction ps arbitrary: L)
  case Nil
  then show ?case by (simp add: map_nth)
next
  case (Cons p ps)
  obtain v1 v2 where p: "p = (v1, v2)" by (cases p)
  from Cons.prems p have v1: "0 \<le> v1" "v1 < int (length L)" by auto
  then have pos: "py_position L v1 = Inr (nat v1)"
    by (simp add: py_position_def)
  let ?L = "L[nat v1 := L ! nat v1 @ [v2]]"
  have "\<forall>p \<in> set ps. 0 \<le> fst p \<and> fst p < int (length ?L)"
    using Cons.prems by simp
  from Cons.IH [OF this] have
    "append_values ?L ps =
       Inr (map (\<lambda>k. ?L ! k @ map snd (filter (\<lambda>p. fst p = int k) ps)) [0..<length L])"
    by simp
  moreover have "map (\<lambda>k. ?L ! k @ map snd (filter (\<lambda>p. fst p = int k) ps)) [0..<length L]
    = map (\<lambda>k. L ! k @ map snd (filter (\<lambda>p. fst p = int k) (p # ps))) [0..<length L]"
    using v1 p by (auto simp: nth_list_update)
  ultimately show ?case using pos p by simp
qed

text \<open>
  C5: for a row-aligned pair of columns whose first column holds non-negative integers with
  maximum \<open>m\<close>, \<open>create_word_list\<close> returns exactly \<open>m + 1\<close> documents; document \<open>k\<close> is the
  space-joined \<open>str\<close> of the second column's values on the rows whose first column is
  \<open>k\<close>, in row order, and it is the empty string when \<open>k\<close> occurs in no row.
\<close>

theorem create_word_list_documents:
  assumes c1: "getitem df col1 = Inr vals1"
    and c2: "getitem df col2 = Inr vals2"
    and ne: "vals1 \<noteq> []"
    and nonneg: "\<forall>v \<in> set vals1. 0 \<le> v"
    and m: "m = Max (set vals1)"
  shows "\<exists>docs. create_word_list df col1 col2 = Inr docs \<and> length docs = nat m + 1 \<and>
           (\<forall>k \<le> nat m. docs ! k = join '' '' (map str (tokens_for vals1 vals2 k))) \<and>
           (\<forall>k \<le> nat m. int k \<notin> set vals1 \<longrightarrow> docs ! k = [])"
proof -
  let ?n = "nat (Max (set vals1) + 1)"
  let ?L = "replicate ?n ([] :: int list)"
  from ne obtain v where v: "v \<in> set vals1" by (cases vals1) auto
  then have le: "v \<le> Max (set vals1)" by simp
  from v nonneg have "0 \<le> v" by blast
  with le m have m0: "0 \<le> m" by simp
  have n: "?n = nat m + 1" using m0 m by simp
  have bound: "\<forall>p \<in> set (zip vals1 vals2). 0 \<le> fst p \<and> fst p < int (length ?L)"
  proof
    fix p assume "p \<in> set (zip vals1 vals2)"
    then have mem: "fst p \<in> set vals1" by (metis prod.collapse set_zip_leftD)
    then have "fst p \<le> Max (set vals1)" by simp
    with mem nonneg m0 m show "0 \<le> fst p \<and> fst p < int (length ?L)" by auto
  qed
  let ?docs = "map (\<lambda>k. join '' '' (map str (tokens_for vals1 vals2 k))) [0..<?n]"
  have run: "create_word_list df col1 col2 = Inr ?docs"
    using c1 c2 ne append_values_ok [OF bound]
    by (simp add: create_word_list_def Let_def tokens_for_def comp_def)
  have absent: "tokens_for vals1 vals2 k = []" if "int k \<notin> set vals1" for k
    using that unfolding tokens_for_def
    by (auto simp: filter_empty_conv dest: set_zip_leftD)
  have nth_doc: "?docs ! k = join '' '' (map str (tokens_for vals1 vals2 k))" if "k \<le> nat m" for k
  proof -
    from that n have "k < ?n" by linarith
    then show ?thesis by (simp del: upt_Suc)
  qed
  have len: "length ?docs = nat m + 1" using n by (simp del: upt_Suc)
  from run len nth_doc absent show ?thesis by (metis (no_types, lifting) join.simps(1) list.simps(8))
qed

theorem create_word_list_documents_witness:
  "\<exists>docs. create_word_list demo_clicks ''ip'' ''app'' = Inr docs \<and> length docs = 3 \<and>
     docs ! 0 = ''10'' \<and> docs ! 1 = [] \<and> docs ! 2 = ''7 5''"
proof -
  have c1: "getitem demo_clicks ''ip'' = Inr [2, 0, 2]"
    by (simp add: getitem_def demo_clicks_def)
  have c2: "getitem demo_clicks ''app'' = Inr [7, 10, 5]"
    by (simp add: getitem_def demo_clicks_def)
  have m: "(2::int) = Max (set [2, 0, 2])" by simp
  from create_word_list_documents [OF c1 c2 _ _ m]
  obtain docs where d: "create_word_list demo_clicks ''ip'' ''app'' = Inr docs"
    "length docs = nat 2 + 1"
    "\<forall>k \<le> nat 2. docs ! k = join '' '' (map str (tokens_for [2, 0, 2] [7, 10, 5] k))"
    by auto
  have "docs ! 0 = ''10''" "docs ! 1 = []" "docs ! 2 = ''7 5''"
    using d(3) by (simp_all add: tokens_for_def str_def str_nat.simps digit_def)
  with d(1,2) show ?thesis by simp
qed

section \<open>Pair enumeration\<close>

text \<open>
  C6: \<open>get_column_pairs\<close> yields exactly 20 ordered pairs over the five columns, pairwise
  distinct, and a pair belongs to the result exactly when its two members are distinct
  columns of the set.
\<close>

theorem get_column_pairs_complete:
  "length get_column_pairs = 20 \<and> distinct get_column_pairs \<and>
   (\<forall>col1 col2. (col1, col2) \<in> set get_column_pairs \<longleftrightarrow>
      (col1 \<in> set column_names \<and> col2 \<in> set column_names \<and> col1 \<noteq> col2))"
proof -
  have len: "length get_column_pairs = 20"
    by (simp add: get_column_pairs_def column_names_def)
  have "distinct column_names"
    by (simp add: column_names_def)
  then have dist: "distinct get_column_pairs"
    unfolding get_column_pairs_def by (intro distinct_filter distinct_product)
  have mem: "\<forall>col1 col2. (col1, col2) \<in> set get_column_pairs \<longleftrightarrow>
      (col1 \<in> set column_names \<and> col2 \<in> set column_names \<and> col1 \<noteq> col2)"
    unfolding get_column_pairs_def by auto
  from len dist mem show ?thesis by blast
qed

end
